theory Spec2Isabelle
  imports Complex_Main "HOL-Library.Word"
begin

section \<open>JavaScript values carried by the requests and the order file\<close>

text \<open>
  A JavaScript string is a sequence of UTF-16 code units, and \<^verbatim>\<open>length\<close>, \<^verbatim>\<open>substring\<close> and
  the regular expressions of the server count and compare code units. \<open>str\<close> gives the
  string of an ASCII literal of the source.
\<close>

type_synonym jsstring = "16 word list"

definition str :: "string \<Rightarrow> jsstring" where
  "str s = map of_char s"

text \<open>
  The handlers of \<^verbatim>\<open>server.js\<close> read their inputs from a JSON body, so a field can be
  missing (\<open>undefined\<close>), \<open>null\<close>, a boolean, a number or a string. A number is a finite
  double, given by its exact value. Containers (objects and arrays) are outside the
  model.
\<close>

datatype jsvalue = JUndefined | JNull | JBool bool | JNum rat | JStr jsstring

text \<open>ToBoolean: what \<^verbatim>\<open>!x\<close> tests.\<close>

fun truthy :: "jsvalue \<Rightarrow> bool" where
  "truthy JUndefined = False"
| "truthy JNull = False"
| "truthy (JBool b) = b"
| "truthy (JNum q) = (q \<noteq> 0)"
| "truthy (JStr s) = (s \<noteq> [])"

text \<open>The result of a numeric conversion: \<open>NaN\<close>, a finite number, or an infinity.\<close>

datatype jsnum = NaN | Fin rat | PosInf | NegInf

text \<open>The relational operator \<^verbatim>\<open><\<close> on numbers: every comparison with \<open>NaN\<close> is false.\<close>

fun jsLess :: "jsnum \<Rightarrow> jsnum \<Rightarrow> bool" where
  "jsLess (Fin a) (Fin b) = (a < b)"
| "jsLess (Fin a) PosInf = True"
| "jsLess NegInf (Fin b) = True"
| "jsLess NegInf PosInf = True"
| "jsLess _ _ = False"

subsection \<open>Decimal digits\<close>

text \<open>The code units of the digits 0 to 9 are 0x30 to 0x39.\<close>

definition isDigit :: "16 word \<Rightarrow> bool" where
  "isDigit u = (0x30 \<le> u \<and> u \<le> 0x39)"

definition digitVal :: "16 word \<Rightarrow> nat" where
  "digitVal u = unat u - 0x30"

definition digitChar :: "nat \<Rightarrow> char" where
  "digitChar d = ''0123456789'' ! d"

text \<open>
  Number-to-string conversion of a non-negative integer (template literal,
  \<^verbatim>\<open>String(n)\<close>): its decimal digits, an ASCII text.
\<close>

fun showNat :: "nat \<Rightarrow> string" where
  "showNat n = (if n < 10 then [digitChar n] else showNat (n div 10) @ [digitChar (n mod 10)])"

declare showNat.simps [simp del]

definition showInt :: "int \<Rightarrow> string" where
  "showInt i = (if i < 0 then CHR ''-'' # showNat (nat (- i)) else showNat (nat i))"

text \<open>\<^verbatim>\<open>s.padStart(2, '0')\<close>\<close>

definition padStart2 :: "string \<Rightarrow> string" where
  "padStart2 s = replicate (2 - length s) CHR ''0'' @ s"

subsection \<open>Rounding to a double\<close>

text \<open>
  The Number value of a real: the nearest double, ties to the even significand. A double
  has 53 significant bits and the least exponent of its last bit is -1074; what rounds
  to \<open>2 ^ 1024\<close> or more is an infinity.
\<close>

definition pow2 :: "int \<Rightarrow> rat" where
  "pow2 e = (if 0 \<le> e then 2 ^ nat e else 1 / 2 ^ nat (- e))"

fun bitLength :: "nat \<Rightarrow> nat" where
  "bitLength n = (if n = 0 then 0 else Suc (bitLength (n div 2)))"

declare bitLength.simps [simp del]

text \<open>For \<open>a > 0\<close>, the exponent \<open>e\<close> with \<open>2 ^ e \<le> a < 2 ^ (e + 1)\<close>.\<close>

definition floorLog2 :: "rat \<Rightarrow> int" where
  "floorLog2 a =
     (if 1 \<le> a then int (bitLength (nat \<lfloor>a\<rfloor>)) - 1
      else - int (bitLength (nat (\<lceil>1 / a\<rceil> - 1))))"

definition roundHalfEven :: "rat \<Rightarrow> int" where
  "roundHalfEven m =
     (let f = \<lfloor>m\<rfloor>; r = m - of_int f
      in if r < 1 / 2 then f else if 1 / 2 < r then f + 1 else if even f then f else f + 1)"

definition toDouble :: "rat \<Rightarrow> jsnum" where
  "toDouble q =
     (if q = 0 then Fin 0
      else
        let a = \<bar>q\<bar>;
            k = max (floorLog2 a - 52) (- 1074);
            v = of_int (roundHalfEven (a / pow2 k)) * pow2 k
        in if pow2 1024 \<le> v then (if 0 < q then PosInf else NegInf)
           else Fin (if 0 < q then v else - v))"

subsection \<open>parseFloat\<close>

text \<open>
  \<^verbatim>\<open>parseFloat\<close> converts its argument to a string, skips leading white space and line
  terminators and reads the longest prefix that is a decimal literal: an optional sign,
  then \<open>Infinity\<close>, or digits with an optional fraction and an optional exponent. No such
  prefix gives \<open>NaN\<close>; otherwise the result is the double nearest to the value of the
  literal.
\<close>

definition isWhite :: "16 word \<Rightarrow> bool" where
  "isWhite u =
     (u \<in> {0x0009, 0x000A, 0x000B, 0x000C, 0x000D, 0x0020, 0x00A0, 0x1680, 0x2028, 0x2029,
            0x202F, 0x205F, 0x3000, 0xFEFF}
      \<or> (0x2000 \<le> u \<and> u \<le> 0x200A))"

definition digitsVal :: "jsstring \<Rightarrow> nat" where
  "digitsVal ds = foldl (\<lambda>acc u. 10 * acc + digitVal u) 0 ds"

text \<open>The exponent part \<^verbatim>\<open>e[+-]digits\<close>; it is read only when it has a digit.\<close>

definition exponentOf :: "jsstring \<Rightarrow> int" where
  "exponentOf r =
     (case r of
        [] \<Rightarrow> 0
      | c # r1 \<Rightarrow>
          if c = 0x65 \<or> c = 0x45 then
            (case r1 of
               [] \<Rightarrow> 0
             | s # r2 \<Rightarrow>
                 if s = 0x2D then - int (digitsVal (takeWhile isDigit r2))
                 else if s = 0x2B then int (digitsVal (takeWhile isDigit r2))
                 else int (digitsVal (takeWhile isDigit r1)))
          else 0)"

definition scale10 :: "rat \<Rightarrow> int \<Rightarrow> rat" where
  "scale10 q e = (if 0 \<le> e then q * 10 ^ nat e else q / 10 ^ nat (- e))"

definition unsignedLiteral :: "jsstring \<Rightarrow> jsnum" where
  "unsignedLiteral r =
     (if take 8 r = str ''Infinity'' then PosInf
      else
        let ip = takeWhile isDigit r;
            r1 = dropWhile isDigit r;
            hasDot = (r1 \<noteq> [] \<and> hd r1 = 0x2E);
            fp = (if hasDot then takeWhile isDigit (tl r1) else []);
            r2 = (if hasDot then dropWhile isDigit (tl r1) else r1)
        in if ip = [] \<and> fp = [] then NaN
           else toDouble
                  (scale10 (of_nat (digitsVal ip) + of_nat (digitsVal fp) / 10 ^ length fp)
                     (exponentOf r2)))"

fun jsNegate :: "jsnum \<Rightarrow> jsnum" where
  "jsNegate NaN = NaN"
| "jsNegate (Fin q) = Fin (- q)"
| "jsNegate PosInf = NegInf"
| "jsNegate NegInf = PosInf"

definition parseFloatStr :: "jsstring \<Rightarrow> jsnum" where
  "parseFloatStr s =
     (case dropWhile isWhite s of
        [] \<Rightarrow> NaN
      | c # r \<Rightarrow>
          if c = 0x2D then jsNegate (unsignedLiteral r)
          else if c = 0x2B then unsignedLiteral r
          else unsignedLiteral (c # r))"

text \<open>
  A number converts to its own literal and parses back to itself; \<open>undefined\<close>, \<open>null\<close>,
  \<open>true\<close> and \<open>false\<close> convert to words that start no literal.
\<close>

fun parseFloat :: "jsvalue \<Rightarrow> jsnum" where
  "parseFloat (JNum q) = Fin q"
| "parseFloat (JStr s) = parseFloatStr s"
| "parseFloat _ = NaN"

subsection \<open>Strings\<close>

text \<open>\<^verbatim>\<open>s.substring(a, b)\<close> for \<open>a \<le> b\<close>: indices beyond the end are clamped.\<close>

definition substring :: "nat \<Rightarrow> nat \<Rightarrow> jsstring \<Rightarrow> jsstring" where
  "substring a b s = take (b - a) (drop a s)"

text \<open>
  The conversion to a string that a template literal applies. The decimal rendering of a
  number (\<^verbatim>\<open>Number.prototype.toString\<close>) is a parameter.
\<close>

fun jsToString :: "(rat \<Rightarrow> jsstring) \<Rightarrow> jsvalue \<Rightarrow> jsstring" where
  "jsToString f JUndefined = str ''undefined''"
| "jsToString f JNull = str ''null''"
| "jsToString f (JBool b) = (if b then str ''true'' else str ''false'')"
| "jsToString f (JNum q) = f q"
| "jsToString f (JStr s) = s"

section \<open>Calendar dates\<close>

text \<open>
  A \<^verbatim>\<open>Date\<close> is modelled by its local calendar fields, named after their getters:
  \<open>getMonth\<close> counts from 0 and \<open>getDate\<close> from 1. The time of day and the time zone
  are not modelled.
\<close>

record date =
  getFullYear :: int
  getMonth :: nat
  getDate :: nat

definition leapYear :: "int \<Rightarrow> bool" where
  "leapYear y = ((y mod 4 = 0 \<and> y mod 100 \<noteq> 0) \<or> y mod 400 = 0)"

definition daysInMonth :: "int \<Rightarrow> nat \<Rightarrow> nat" where
  "daysInMonth y m =
     (if m = 1 then (if leapYear y then 29 else 28)
      else if m = 3 \<or> m = 5 \<or> m = 8 \<or> m = 10 then 30
      else 31)"

text \<open>
  \<^verbatim>\<open>setMonth\<close> and \<^verbatim>\<open>setFullYear\<close> rebuild the date from (year, month, day of month)
  and accept fields out of range: a month index of 12 or more carries into the year, and
  a day of month beyond the end of the month carries into the following month. The day
  of month comes from \<^verbatim>\<open>getDate\<close> and is at least 1.
\<close>

function makeDay :: "int \<Rightarrow> nat \<Rightarrow> nat \<Rightarrow> date" where
  "makeDay y m d =
     (if 12 \<le> m then makeDay (y + 1) (m - 12) d
      else if daysInMonth y m < d then makeDay y (m + 1) (d - daysInMonth y m)
      else \<lparr>getFullYear = y, getMonth = m, getDate = d\<rparr>)"
  by pat_completeness auto
termination
  by (relation "measures [\<lambda>(y, m, d). d, \<lambda>(y, m, d). m]") (auto simp: daysInMonth_def)

declare makeDay.simps [simp del]

definition setMonth :: "date \<Rightarrow> nat \<Rightarrow> date" where
  "setMonth t m = makeDay (getFullYear t) m (getDate t)"

definition setFullYear :: "date \<Rightarrow> int \<Rightarrow> date" where
  "setFullYear t y = makeDay y (getMonth t) (getDate t)"

section \<open>The environment of a request\<close>

text \<open>
  What a handler reads from outside the order file: the signing key loaded at start-up
  (absent when neither the environment variable nor the key file exists; the function
  stands for \<^verbatim>\<open>privateKey.sign(payload, 'base64', 'utf8')\<close>), the clock, the admin
  password, and the fate of the e-mail: whether the API key of the mail service is set
  and whether the service accepts the message. Two functions of the JavaScript library
  are parameters as well: the decimal rendering of a number and
  \<^verbatim>\<open>String.prototype.toUpperCase\<close>, the case mapping of Unicode.
\<close>

record env =
  privateKey :: "(jsstring \<Rightarrow> jsstring) option"
  now :: date
  isoNow :: jsstring
  ADMIN_PASS :: jsstring
  emailApiKey :: bool
  emailAccepted :: bool
  numberToString :: "rat \<Rightarrow> jsstring"
  toUpperCase :: "jsstring \<Rightarrow> jsstring"

datatype jserror = Error string | TypeError

section \<open>generateLicense\<close>

definition generateLicense :: "env \<Rightarrow> jsvalue \<Rightarrow> jsvalue \<Rightarrow> jserror + jsstring" where
  "generateLicense e machineId type =
     (case privateKey e of
        None \<Rightarrow> Inl (Error ''Private Key not configured!'')
      | Some sign \<Rightarrow>
          (case machineId of
             JStr mid \<Rightarrow>
               let machineHash = toUpperCase e (substring 0 8 mid);
                   now1 =
                     (if type = JStr (str ''M'') then setMonth (now e) (getMonth (now e) + 1)
                      else if type = JStr (str ''Y'') then
                        setFullYear (now e) (getFullYear (now e) + 1)
                      else now e);
                   expiry =
                     (if type \<noteq> JStr (str ''P'') then
                        str (showInt (getFullYear now1)
                               @ padStart2 (showNat (getMonth now1 + 1))
                               @ padStart2 (showNat (getDate now1)))
                      else str ''FOREVER'');
                   payload =
                     jsToString (numberToString e) type @ str ''-'' @ machineHash @ str ''-''
                       @ expiry
               in Inr (payload @ str ''-'' @ sign payload)
           | _ \<Rightarrow> Inl TypeError))"

section \<open>Finding the order id in the transfer content\<close>

text \<open>
  \<^verbatim>\<open>content.match(/TT\d{4}/)\<close>: the regular expression is tried at each position from the
  left, and the first position where \<open>TT\<close> and four decimal digits follow gives the match.
\<close>

definition matchesHere :: "jsstring \<Rightarrow> bool" where
  "matchesHere s =
     (6 \<le> length s \<and> take 2 s = str ''TT'' \<and> list_all isDigit (take 4 (drop 2 s)))"

fun matchOrderCode :: "jsstring \<Rightarrow> jsstring option" where
  "matchOrderCode [] = None"
| "matchOrderCode (c # cs) =
     (if matchesHere (c # cs) then Some (take 6 (c # cs)) else matchOrderCode cs)"

section \<open>The order file\<close>

text \<open>
  \<^verbatim>\<open>orders.json\<close> holds one object whose keys are order ids. \<^verbatim>\<open>saveOrder\<close> stores the four
  fields of the request with a status and a creation time; \<^verbatim>\<open>updateOrderStatus\<close> adds
  the license key and the update time. A field that an order does not have is \<open>None\<close>.
\<close>

datatype status = PENDING | COMPLETED

record orderData =
  machineId :: jsvalue
  email :: jsvalue
  type :: jsvalue
  amount :: jsvalue

record order = orderData +
  status :: status
  createdAt :: jsstring
  licenseKey :: "jsstring option"
  updatedAt :: "jsstring option"

type_synonym db = "jsstring \<rightharpoonup> order"

definition saveOrder :: "env \<Rightarrow> jsstring \<Rightarrow> orderData \<Rightarrow> db \<Rightarrow> db" where
  "saveOrder e orderId data d =
     d(orderId \<mapsto>
        \<lparr>machineId = machineId data, email = email data, type = type data, amount = amount data,
         status = PENDING, createdAt = isoNow e, licenseKey = None, updatedAt = None\<rparr>)"

text \<open>
  Reading \<^verbatim>\<open>db[orderId]\<close> finds the order stored under the key or, for the names that
  every object inherits from \<^verbatim>\<open>Object.prototype\<close>, a value that is truthy and has none
  of the fields of an order.
\<close>

definition objectPrototypeKeys :: "jsstring list" where
  "objectPrototypeKeys =
     map str
     [''__proto__'', ''constructor'', ''hasOwnProperty'', ''isPrototypeOf'',
      ''propertyIsEnumerable'', ''toLocaleString'', ''toString'', ''valueOf'',
      ''__defineGetter__'', ''__defineSetter__'', ''__lookupGetter__'', ''__lookupSetter__'']"

datatype lookup = Own order | Inherited | Absent

definition getOrder :: "db \<Rightarrow> jsstring \<Rightarrow> lookup" where
  "getOrder d orderId =
     (case d orderId of
        Some order \<Rightarrow> Own order
      | None \<Rightarrow> if orderId \<in> set objectPrototypeKeys then Inherited else Absent)"

text \<open>
  \<^verbatim>\<open>updateOrderStatus(orderId, status, extraData)\<close>, where \<open>extraData\<close> is either empty or
  carries a license key. Both callers pass the id of an order that \<^verbatim>\<open>getOrder\<close> has just
  found in the file.
\<close>

definition updateOrderStatus ::
  "env \<Rightarrow> jsstring \<Rightarrow> status \<Rightarrow> jsstring option \<Rightarrow> db \<Rightarrow> db" where
  "updateOrderStatus e orderId st extraData d =
     (case d orderId of
        None \<Rightarrow> d
      | Some order \<Rightarrow>
          d(orderId \<mapsto>
             order\<lparr>status := st,
                    licenseKey := (case extraData of None \<Rightarrow> licenseKey order | Some k \<Rightarrow> Some k),
                    updatedAt := Some (isoNow e)\<rparr>))"

section \<open>The state and the effects of a request\<close>

text \<open>
  The state is the content of the order file together with the record of the calls made
  so far to the license generator, to \<^verbatim>\<open>updateOrderStatus\<close> and to the mailer, in the order
  in which they happened.
\<close>

datatype event =
    CallGenerateLicense jsvalue jsvalue
  | CallUpdateOrderStatus jsstring status
  | CallSendEmail jsvalue jsstring jsstring

record state =
  db :: db
  calls :: "event list"

definition initialState :: state where
  "initialState = \<lparr>db = Map.empty, calls = []\<rparr>"

text \<open>
  \<^verbatim>\<open>sendEmail\<close> never throws: it answers \<open>false\<close> when the API key of the mail service is
  not set, and otherwise whether the service accepted the message. (The earlier copy of
  the server sends through SMTP instead and likewise answers \<open>false\<close> on any error; its
  webhook is the same.)
\<close>

definition sendEmail :: "env \<Rightarrow> jsvalue \<Rightarrow> jsstring \<Rightarrow> jsstring \<Rightarrow> bool" where
  "sendEmail e to key orderId = (emailApiKey e \<and> emailAccepted e)"

text \<open>A response: the HTTP status and the fields of the JSON body, under their names.\<close>

type_synonym response = "nat \<times> (string \<times> jsvalue) list"

section \<open>The routes\<close>

subsection \<open>\<^verbatim>\<open>POST /create-order\<close>\<close>

text \<open>
  \<open>r\<close> is the integer part of \<^verbatim>\<open>Math.random() * 9000\<close>, so that the number in the order id
  is \<open>1000 + r\<close>.
\<close>

definition transferMessage :: "jsstring \<Rightarrow> jsstring \<Rightarrow> jsstring" where
  "transferMessage amountText orderId =
     str ''Vui l'' @ [0x00F2] @ str ''ng chuy'' @ [0x1EC3] @ str ''n kho'' @ [0x1EA3] @ str ''n ''
       @ amountText @ [0x0111] @ str '' v'' @ [0x1EDB] @ str ''i n'' @ [0x1ED9]
       @ str ''i dung: '' @ orderId"

definition create_order :: "env \<Rightarrow> orderData \<Rightarrow> nat \<Rightarrow> state \<Rightarrow> response \<times> state" where
  "create_order e body r s =
     (if \<not> truthy (machineId body) \<or> \<not> truthy (email body) \<or> \<not> truthy (type body)
         \<or> \<not> truthy (amount body)
      then ((400, [(''error'', JStr (str ''Missing required fields''))]), s)
      else
        let orderId = str ''TT'' @ str (showNat (1000 + r))
        in ((200, [(''success'', JBool True), (''orderId'', JStr orderId),
                   (''message'',
                    JStr (transferMessage (jsToString (numberToString e) (amount body)) orderId))]),
            s\<lparr>db := saveOrder e orderId body (db s)\<rparr>))"

subsection \<open>\<^verbatim>\<open>POST /webhook/sepay\<close>\<close>

text \<open>
  The whole handler runs inside \<^verbatim>\<open>try\<close>: a content that is not a string has no
  \<^verbatim>\<open>match\<close> method, and that error, like one thrown by \<^verbatim>\<open>generateLicense\<close>, is answered
  with status 500. The \<open>amount\<close> of the body is called \<open>paid\<close> here, to tell it from
  the \<open>amount\<close> of the order.
\<close>

definition webhook_sepay :: "env \<Rightarrow> jsvalue \<Rightarrow> jsvalue \<Rightarrow> state \<Rightarrow> response \<times> state" where
  "webhook_sepay e content paid s =
     (case content of
        JStr text \<Rightarrow>
          (case matchOrderCode text of
             None \<Rightarrow> ((200, [(''success'', JBool False), (''message'', JStr (str ''No order code found''))]), s)
           | Some orderId \<Rightarrow>
               (case getOrder (db s) orderId of
                  Absent \<Rightarrow>
                    ((200, [(''success'', JBool False), (''message'', JStr (str ''Order not found''))]), s)
                | Inherited \<Rightarrow>
                    ((500, [(''error'', JStr (str ''Internal Server Error''))]),
                     s\<lparr>calls := calls s @ [CallGenerateLicense JUndefined JUndefined]\<rparr>)
                | Own order \<Rightarrow>
                    if status order = COMPLETED then
                      ((200, [(''success'', JBool True),
                              (''message'', JStr (str ''Order already completed''))]), s)
                    else if jsLess (parseFloat paid) (parseFloat (amount order)) then
                      ((200, [(''success'', JBool False),
                              (''message'', JStr (str ''Insufficient amount''))]), s)
                    else
                      (case generateLicense e (machineId order) (type order) of
                         Inl err \<Rightarrow>
                           ((500, [(''error'', JStr (str ''Internal Server Error''))]),
                            s\<lparr>calls := calls s
                                 @ [CallGenerateLicense (machineId order) (type order)]\<rparr>)
                       | Inr key \<Rightarrow>
                           let emailSent = sendEmail e (email order) key orderId
                           in ((200, [(''success'', JBool True), (''emailSent'', JBool emailSent)]),
                               s\<lparr>db := updateOrderStatus e orderId COMPLETED (Some key) (db s),
                                  calls := calls s
                                    @ [CallGenerateLicense (machineId order) (type order),
                                       CallUpdateOrderStatus orderId COMPLETED,
                                       CallSendEmail (email order) key orderId]\<rparr>))))
      | _ \<Rightarrow> ((500, [(''error'', JStr (str ''Internal Server Error''))]), s))"

subsection \<open>The admin routes\<close>

text \<open>\<^verbatim>\<open>checkAdmin\<close> compares the header \<^verbatim>\<open>x-admin-pass\<close>, which may be absent.\<close>

definition checkAdmin :: "env \<Rightarrow> jsstring option \<Rightarrow> bool" where
  "checkAdmin e pass = (pass = Some (ADMIN_PASS e))"

definition unauthorized :: response where
  "unauthorized = (401, [(''success'', JBool False), (''message'', JStr (str ''Unauthorized''))])"

text \<open>
  \<^verbatim>\<open>POST /api/approve\<close>. The \<open>orderId\<close> of the body is used as a property key, that is,
  converted to a string.
\<close>

definition api_approve ::
  "env \<Rightarrow> jsstring option \<Rightarrow> jsvalue \<Rightarrow> state \<Rightarrow> response \<times> state" where
  "api_approve e pass orderIdValue s =
     (if \<not> checkAdmin e pass then (unauthorized, s)
      else
        let orderId = jsToString (numberToString e) orderIdValue
        in (case getOrder (db s) orderId of
              Absent \<Rightarrow>
                ((404, [(''success'', JBool False), (''message'', JStr (str ''Order not found''))]), s)
            | Inherited \<Rightarrow>
                ((500, [(''success'', JBool False), (''message'', JStr (str ''Internal Error''))]),
                 s\<lparr>calls := calls s @ [CallGenerateLicense JUndefined JUndefined]\<rparr>)
            | Own order \<Rightarrow>
                if status order = COMPLETED then
                  ((200, [(''success'', JBool False),
                          (''message'', JStr (str ''Order already completed''))]), s)
                else
                  (case generateLicense e (machineId order) (type order) of
                     Inl err \<Rightarrow>
                       ((500, [(''success'', JBool False), (''message'', JStr (str ''Internal Error''))]),
                        s\<lparr>calls := calls s
                             @ [CallGenerateLicense (machineId order) (type order)]\<rparr>)
                   | Inr key \<Rightarrow>
                       let emailSent = sendEmail e (email order) key orderId
                       in ((200, [(''success'', JBool True), (''emailSent'', JBool emailSent)]),
                           s\<lparr>db := updateOrderStatus e orderId COMPLETED (Some key) (db s),
                              calls := calls s
                                @ [CallGenerateLicense (machineId order) (type order),
                                   CallUpdateOrderStatus orderId COMPLETED,
                                   CallSendEmail (email order) key orderId]\<rparr>))))"

text \<open>
  \<^verbatim>\<open>DELETE /api/orders/:id\<close>. Deleting an inherited name removes nothing and still
  answers with success.
\<close>

definition api_orders_delete ::
  "env \<Rightarrow> jsstring option \<Rightarrow> jsstring \<Rightarrow> state \<Rightarrow> response \<times> state" where
  "api_orders_delete e pass orderId s =
     (if \<not> checkAdmin e pass then (unauthorized, s)
      else
        (case getOrder (db s) orderId of
           Absent \<Rightarrow> ((404, [(''success'', JBool False), (''message'', JStr (str ''Not found''))]), s)
         | Inherited \<Rightarrow> ((200, [(''success'', JBool True)]), s)
         | Own order \<Rightarrow> ((200, [(''success'', JBool True)]), s\<lparr>db := (db s)(orderId := None)\<rparr>)))"

subsection \<open>A server run\<close>

text \<open>
  The routes that write the order file, as requests, each with the environment in which
  it is served. \<^verbatim>\<open>GET /api/orders\<close> only reads the file.
\<close>

datatype request =
    CreateOrder orderData nat
  | WebhookSepay jsvalue jsvalue
  | ApiApprove "jsstring option" jsvalue
  | ApiOrdersDelete "jsstring option" jsstring

fun handle :: "env \<Rightarrow> request \<Rightarrow> state \<Rightarrow> response \<times> state" where
  "handle e (CreateOrder body r) s = create_order e body r s"
| "handle e (WebhookSepay content paid) s = webhook_sepay e content paid s"
| "handle e (ApiApprove pass orderId) s = api_approve e pass orderId s"
| "handle e (ApiOrdersDelete pass orderId) s = api_orders_delete e pass orderId s"

fun run :: "(env \<times> request) list \<Rightarrow> state \<Rightarrow> state" where
  "run [] s = s"
| "run ((e, rq) # rest) s = run rest (snd (handle e rq s))"

section \<open>Notions of the specification\<close>

subsection \<open>Order codes in a text\<close>

text \<open>
  An order code is \<open>TT\<close> followed by exactly four decimal digits. A word occurs in a text
  at position \<open>i\<close> when the text, after its first \<open>i\<close> characters, continues with the word.
\<close>

definition isOrderCode :: "jsstring \<Rightarrow> bool" where
  "isOrderCode w =
     (length w = 6 \<and> take 2 w = str ''TT'' \<and> (\<forall>c \<in> set (drop 2 w). isDigit c))"

definition occursAt :: "jsstring \<Rightarrow> nat \<Rightarrow> jsstring \<Rightarrow> bool" where
  "occursAt w i s = (i + length w \<le> length s \<and> take (length w) (drop i s) = w)"

definition codeAt :: "nat \<Rightarrow> jsstring \<Rightarrow> bool" where
  "codeAt i s = (\<exists>w. isOrderCode w \<and> occursAt w i s)"

subsection \<open>Dates one month and one year later\<close>





text \<open>The year, the month as two digits and the day as two digits.\<close>

definition formatYMD :: "date \<Rightarrow> string" where
  "formatYMD t =
     showInt (getFullYear t) @ padStart2 (showNat (getMonth t + 1)) @ padStart2 (showNat (getDate t))"



subsection \<open>Comparing amounts\<close>

text \<open>The relational operator \<^verbatim>\<open>>=\<close> on numbers; like \<^verbatim>\<open><\<close> it is false on \<open>NaN\<close>.\<close>

definition jsGreaterEq :: "jsnum \<Rightarrow> jsnum \<Rightarrow> bool" where
  "jsGreaterEq a b =
     (case a of
        NaN \<Rightarrow> False
      | Fin x \<Rightarrow> (case b of Fin y \<Rightarrow> y \<le> x | NegInf \<Rightarrow> True | _ \<Rightarrow> False)
      | PosInf \<Rightarrow> (case b of NaN \<Rightarrow> False | _ \<Rightarrow> True)
      | NegInf \<Rightarrow> (case b of NegInf \<Rightarrow> True | _ \<Rightarrow> False))"

subsection \<open>The license key of an order\<close>

text \<open>Every order in the file has a license key exactly when it is completed.\<close>

definition licenseKeyInvariant :: "state \<Rightarrow> bool" where
  "licenseKeyInvariant s =
     (\<forall>k order. db s k = Some order \<longrightarrow> (licenseKey order \<noteq> None) = (status order = COMPLETED))"

section \<open>Outcomes of the routes\<close>

text \<open>The answers of the two fulfillment routes on a completed order, and on too small a
  payment.\<close>

definition alreadyCompletedWebhook :: response where
  "alreadyCompletedWebhook =
     (200, [(''success'', JBool True), (''message'', JStr (str ''Order already completed''))])"

definition alreadyCompletedApprove :: response where
  "alreadyCompletedApprove =
     (200, [(''success'', JBool False), (''message'', JStr (str ''Order already completed''))])"

definition insufficientAmount :: response where
  "insufficientAmount =
     (200, [(''success'', JBool False), (''message'', JStr (str ''Insufficient amount''))])"

text \<open>The order as \<^verbatim>\<open>saveOrder\<close> writes it, and as it is after fulfillment.\<close>

definition freshOrder :: "env \<Rightarrow> orderData \<Rightarrow> order" where
  "freshOrder e body =
     \<lparr>machineId = machineId body, email = email body, type = type body, amount = amount body,
      status = PENDING, createdAt = isoNow e, licenseKey = None, updatedAt = None\<rparr>"

definition fulfilled :: "env \<Rightarrow> jsstring \<Rightarrow> order \<Rightarrow> jsstring \<Rightarrow> state \<Rightarrow> state" where
  "fulfilled e orderId order key s =
     s\<lparr>db := (db s)(orderId \<mapsto>
                 order\<lparr>status := COMPLETED, licenseKey := Some key, updatedAt := Some (isoNow e)\<rparr>),
       calls := calls s
         @ [CallGenerateLicense (machineId order) (type order),
            CallUpdateOrderStatus orderId COMPLETED,
            CallSendEmail (email order) key orderId]\<rparr>"

section \<open>Example inputs\<close>

text \<open>The upper-casing of ASCII text: what \<^verbatim>\<open>toUpperCase\<close> does to the letters a to z.\<close>

definition asciiUpperCase :: "jsstring \<Rightarrow> jsstring" where
  "asciiUpperCase s = map (\<lambda>u. if 0x61 \<le> u \<and> u \<le> 0x7A then u - 0x20 else u) s"

text \<open>
  An environment on 31 January 2025 with a signing key, whose signature shows the payload
  it signed, and a mail service that refuses the message. Its library functions are
  those of JavaScript on the inputs of the examples: integers and ASCII text.
\<close>

definition exampleEnv :: env where
  "exampleEnv =
     \<lparr>privateKey = Some (\<lambda>payload. str ''sig('' @ payload @ str '')''),
      now = \<lparr>getFullYear = 2025, getMonth = 0, getDate = 31\<rparr>,
      isoNow = str ''2025-01-31T10:00:00.000Z'',
      ADMIN_PASS = str ''admin123'',
      emailApiKey = True,
      emailAccepted = False,
      numberToString = (\<lambda>q. str (showInt \<lfloor>q\<rfloor>)),
      toUpperCase = asciiUpperCase\<rparr>"

text \<open>An order created on 14 January 2025, as it is while pending and as it is after its
  fulfillment on 15 January.\<close>

definition pendingOrder :: order where
  "pendingOrder =
     \<lparr>machineId = JStr (str ''abcdefgh1234''), email = JStr (str ''buyer@example.com''), type = JStr (str ''M''),
      amount = JNum 200000, status = PENDING, createdAt = str ''2025-01-14T08:00:00.000Z'',
      licenseKey = None, updatedAt = None\<rparr>"

definition completedOrder :: order where
  "completedOrder =
     pendingOrder\<lparr>status := COMPLETED,
                  licenseKey := Some (str ''M-ABCDEFGH-20250215-sig(M-ABCDEFGH-20250215)''),
                  updatedAt := Some (str ''2025-01-15T09:00:00.000Z'')\<rparr>"

definition pendingState :: state where
  "pendingState = \<lparr>db = [str ''TT1234'' \<mapsto> pendingOrder], calls = []\<rparr>"

definition completedState :: state where
  "completedState = \<lparr>db = [str ''TT1234'' \<mapsto> completedOrder], calls = []\<rparr>"

text \<open>A request body with a type that is no entitlement and a negative amount.\<close>

definition oddBody :: orderData where
  "oddBody =
     \<lparr>machineId = JStr (str ''abc''), email = JStr (str ''other@example.com''), type = JStr (str ''X''),
      amount = JNum (- 5)\<rparr>"

text \<open>The fields of the request that created the pending example order.\<close>

definition exampleBody :: orderData where
  "exampleBody =
     \<lparr>machineId = JStr (str ''abcdefgh1234''), email = JStr (str ''buyer@example.com''), type = JStr (str ''M''),
      amount = JNum 200000\<rparr>"

text \<open>A run: an order is created, then its payment is reported.\<close>

definition exampleRun :: "(env \<times> request) list" where
  "exampleRun =
     [(exampleEnv, CreateOrder exampleBody 234),
      (exampleEnv, WebhookSepay (JStr (str ''CK TT1234'')) (JNum 200000))]"

section \<open>Strings of ASCII literals\<close>

lemma str_empty [simp]: "str s = [] \<longleftrightarrow> s = []"
  by (simp add: str_def)

lemma length_str [simp]: "length (str s) = length s"
  by (simp add: str_def)


lemma str_append: "str (a @ b) = str a @ str b"
  by (simp add: str_def)

section \<open>Numbers read from text\<close>

lemma floor_rat_numeral: "\<lfloor>numeral a / numeral b :: rat\<rfloor> = numeral a div numeral b"
  using floor_divide_of_int_eq [of "numeral a" "numeral b", where ?'a = rat] by simp

lemma ceiling_rat_numeral: "\<lceil>numeral a / numeral b :: rat\<rceil> = - (- numeral a div numeral b)"
  using floor_divide_of_int_eq [of "- numeral a" "numeral b", where ?'a = rat]
  by (simp add: ceiling_def)

lemmas evalParse =
  parseFloatStr_def unsignedLiteral_def isWhite_def isDigit_def exponentOf_def scale10_def
  digitsVal_def digitVal_def str_def

text \<open>The double nearest to one tenth is 3602879701896397 / 2 ^ 55.\<close>

lemma toDouble_tenth: "toDouble (1 / 10) = Fin (3602879701896397 / 36028797018963968)"
proof -
  have l: "floorLog2 (1 / 10) = - 4"
    by (simp add: floorLog2_def bitLength.simps ceiling_rat_numeral)
  have r: "roundHalfEven (36028797018963968 / 5) = 7205759403792794"
    by (simp add: roundHalfEven_def Let_def floor_rat_numeral)
  show ?thesis
    unfolding toDouble_def Let_def by (simp add: l r pow2_def)
qed

lemma toDouble_hundred: "toDouble 100 = Fin 100"
proof -
  have l: "floorLog2 100 = 6"
    by (simp add: floorLog2_def bitLength.simps)
  have r: "roundHalfEven 7036874417766400 = 7036874417766400"
    by (simp add: roundHalfEven_def Let_def)
  show ?thesis
    unfolding toDouble_def Let_def by (simp add: l r pow2_def)
qed

text \<open>An amount that differs from 200000 by less than the spacing of the doubles is read
  as 200000.\<close>

lemma toDouble_near_200000:
  "toDouble (20000000000000001 / 100000000000) = Fin 200000"
proof -
  have l: "floorLog2 (20000000000000001 / 100000000000) = 17"
    by (simp add: floorLog2_def bitLength.simps floor_rat_numeral)
  have r: "roundHalfEven (335544320000000016777216 / 48828125) = 6871947673600000"
    by (simp add: roundHalfEven_def Let_def floor_rat_numeral)
  show ?thesis
    unfolding toDouble_def Let_def by (simp add: l r pow2_def)
qed

lemma parseFloat_near_200000:
  "parseFloat (JStr (str ''200000.00000000001'')) = Fin 200000"
proof -
  have "parseFloatStr (str ''200000.00000000001'')
      = toDouble (20000000000000001 / 100000000000)"
    by (simp add: evalParse)
  then show ?thesis by (simp add: toDouble_near_200000)
qed

text \<open>A no-break space before the digits is skipped.\<close>

lemma parseFloat_no_break_space: "parseFloat (JStr (0x00A0 # str ''100'')) = Fin 100"
proof -
  have "parseFloatStr (0x00A0 # str ''100'') = toDouble 100"
    by (simp add: evalParse)
  then show ?thesis by (simp add: toDouble_hundred)
qed

lemma parseFloat_words:
  "parseFloat (JStr (str ''abc'')) = NaN" "parseFloat (JStr []) = NaN"
  "parseFloat JUndefined = NaN" "parseFloat JNull = NaN"
  by (simp_all add: evalParse)

section \<open>Order-id extraction\<close>

lemma matchesHere_iff: "matchesHere s \<longleftrightarrow> isOrderCode (take 6 s)"
  by (auto simp: matchesHere_def isOrderCode_def list_all_iff min_def drop_take)

lemma codeAt_iff: "codeAt i s \<longleftrightarrow> matchesHere (drop i s)"
proof
  assume "codeAt i s"
  then obtain w where w: "isOrderCode w" "occursAt w i s" by (auto simp: codeAt_def)
  then have "take 6 (drop i s) = w" by (auto simp: isOrderCode_def occursAt_def)
  with w(1) show "matchesHere (drop i s)" by (simp add: matchesHere_iff)
next
  assume m: "matchesHere (drop i s)"
  then have c: "isOrderCode (take 6 (drop i s))" by (simp add: matchesHere_iff)
  from m have "6 \<le> length s - i" by (simp add: matchesHere_def)
  then have "i + 6 \<le> length s" by arith
  with c have "occursAt (take 6 (drop i s)) i s" by (simp add: occursAt_def isOrderCode_def)
  with c show "codeAt i s" by (auto simp: codeAt_def)
qed

lemma occursAt_code: "isOrderCode w \<Longrightarrow> occursAt w i s \<Longrightarrow> w = take 6 (drop i s)"
  by (auto simp: isOrderCode_def occursAt_def)

lemma match_None: "matchOrderCode s = None \<longleftrightarrow> (\<forall>i. \<not> matchesHere (drop i s))"
proof (induction s)
  case Nil
  then show ?case by (simp add: matchesHere_def)
next
  case (Cons c cs)
  show ?case
  proof (cases "matchesHere (c # cs)")
    case True
    then have "matchesHere (drop 0 (c # cs))" by simp
    with True show ?thesis by (metis matchOrderCode.simps(2) option.distinct(1))
  next
    case False
    have "(\<forall>i. \<not> matchesHere (drop i (c # cs))) \<longleftrightarrow> (\<forall>i. \<not> matchesHere (drop i cs))"
    proof
      assume h: "\<forall>i. \<not> matchesHere (drop i (c # cs))"
      show "\<forall>i. \<not> matchesHere (drop i cs)"
      proof
        fix i from h have "\<not> matchesHere (drop (Suc i) (c # cs))" by blast
        then show "\<not> matchesHere (drop i cs)" by simp
      qed
    next
      assume h: "\<forall>i. \<not> matchesHere (drop i cs)"
      show "\<forall>i. \<not> matchesHere (drop i (c # cs))"
      proof
        fix i show "\<not> matchesHere (drop i (c # cs))"
          using False h by (cases i) simp_all
      qed
    qed
    with False Cons.IH show ?thesis by simp
  qed
qed

lemma match_Some:
  "matchOrderCode s = Some w \<longleftrightarrow>
     (\<exists>i. matchesHere (drop i s) \<and> w = take 6 (drop i s) \<and> (\<forall>j<i. \<not> matchesHere (drop j s)))"
proof (induction s)
  case Nil
  then show ?case by (simp add: matchesHere_def)
next
  case (Cons c cs)
  show ?case
  proof (cases "matchesHere (c # cs)")
    case True
    have "(\<exists>i. matchesHere (drop i (c # cs)) \<and> w = take 6 (drop i (c # cs)) \<and> (\<forall>j<i. \<not> matchesHere (drop j (c # cs))))
       \<longleftrightarrow> w = take 6 (c # cs)" (is "?L \<longleftrightarrow> ?R")
    proof
      assume ?L
      then obtain i where i: "w = take 6 (drop i (c # cs))" "\<forall>j<i. \<not> matchesHere (drop j (c # cs))"
        by blast
      have "i = 0"
      proof (rule ccontr)
        assume "i \<noteq> 0"
        then have "0 < i" by simp
        with i(2) have "\<not> matchesHere (drop 0 (c # cs))" by blast
        with True show False by simp
      qed
      with i(1) show ?R by simp
    next
      assume ?R
      with True have "matchesHere (drop 0 (c # cs)) \<and> w = take 6 (drop 0 (c # cs)) \<and> (\<forall>j<0. \<not> matchesHere (drop j (c # cs)))"
        by simp
      then show ?L by blast
    qed
    with True show ?thesis by auto
  next
    case False
    have "(\<exists>i. matchesHere (drop i (c # cs)) \<and> w = take 6 (drop i (c # cs)) \<and> (\<forall>j<i. \<not> matchesHere (drop j (c # cs))))
       \<longleftrightarrow> (\<exists>i. matchesHere (drop i cs) \<and> w = take 6 (drop i cs) \<and> (\<forall>j<i. \<not> matchesHere (drop j cs)))"
      (is "?L \<longleftrightarrow> ?R")
    proof
      assume ?L
      then obtain i where i: "matchesHere (drop i (c # cs))" "w = take 6 (drop i (c # cs))"
        "\<forall>j<i. \<not> matchesHere (drop j (c # cs))" by blast
      from i(1) False obtain k where k: "i = Suc k" by (cases i) simp_all
      have "\<forall>j<k. \<not> matchesHere (drop j cs)"
      proof (intro allI impI)
        fix j assume "j < k"
        then have "Suc j < i" using k by simp
        with i(3) have "\<not> matchesHere (drop (Suc j) (c # cs))" by blast
        then show "\<not> matchesHere (drop j cs)" by simp
      qed
      with i(1,2) k show ?R by auto
    next
      assume ?R
      then obtain k where k: "matchesHere (drop k cs)" "w = take 6 (drop k cs)"
        "\<forall>j<k. \<not> matchesHere (drop j cs)" by blast
      have "\<forall>j<Suc k. \<not> matchesHere (drop j (c # cs))"
      proof (intro allI impI)
        fix j assume "j < Suc k"
        then show "\<not> matchesHere (drop j (c # cs))"
          using False k(3) by (cases j) simp_all
      qed
      moreover have "matchesHere (drop (Suc k) (c # cs))" "w = take 6 (drop (Suc k) (c # cs))"
        using k by simp_all
      ultimately show ?L by blast
    qed
    with False Cons.IH show ?thesis by simp
  qed
qed

text \<open>
  Claim C7. For every content string, the extraction returns the order code that occurs
  at the leftmost position at which an order code occurs, and returns none exactly when
  no order code occurs anywhere in the content. In particular, of two codes in the
  content the first one is returned.
\<close>

theorem extractOrderId_first_match:
  "(matchOrderCode s = None \<longleftrightarrow> (\<forall>i. \<not> codeAt i s)) \<and>
   (matchOrderCode s = Some w \<longleftrightarrow>
      (\<exists>i. isOrderCode w \<and> occursAt w i s \<and> (\<forall>j<i. \<not> codeAt j s)))"
proof
  show "matchOrderCode s = None \<longleftrightarrow> (\<forall>i. \<not> codeAt i s)"
    by (simp add: match_None codeAt_iff)
next
  have "(\<exists>i. isOrderCode w \<and> occursAt w i s \<and> (\<forall>j<i. \<not> codeAt j s))
     \<longleftrightarrow> (\<exists>i. matchesHere (drop i s) \<and> w = take 6 (drop i s) \<and> (\<forall>j<i. \<not> matchesHere (drop j s)))"
    (is "?L \<longleftrightarrow> ?R")
  proof
    assume ?L
    then obtain i where i: "isOrderCode w" "occursAt w i s" "\<forall>j<i. \<not> codeAt j s" by blast
    then have "codeAt i s" by (auto simp: codeAt_def)
    with i show ?R using occursAt_code codeAt_iff by auto
  next
    assume ?R
    then obtain i where i: "matchesHere (drop i s)" "w = take 6 (drop i s)"
      "\<forall>j<i. \<not> matchesHere (drop j s)" by blast
    from i(1) have "isOrderCode w" using i(2) matchesHere_iff by simp
    moreover from i(1) have "6 \<le> length (drop i s)" by (simp add: matchesHere_def)
    then have "occursAt w i s" using i(2) \<open>isOrderCode w\<close>
      by (auto simp: occursAt_def isOrderCode_def)
    ultimately show ?L using i(3) codeAt_iff by auto
  qed
  then show "matchOrderCode s = Some w \<longleftrightarrow>
      (\<exists>i. isOrderCode w \<and> occursAt w i s \<and> (\<forall>j<i. \<not> codeAt j s))"
    by (simp add: match_Some)
qed


theorem extractOrderId_first_match_witness:
  "matchOrderCode (str ''CK TT1234 NOIDUNG TT9999'') = Some (str ''TT1234'') \<and>
   (\<exists>i. isOrderCode (str ''TT1234'') \<and> occursAt (str ''TT1234'') i (str ''CK TT1234 NOIDUNG TT9999'') \<and>
        (\<forall>j<i. \<not> codeAt j (str ''CK TT1234 NOIDUNG TT9999'')))"
proof -
  have m: "matchOrderCode (str ''CK TT1234 NOIDUNG TT9999'') = Some (str ''TT1234'')"
    by (simp add: matchesHere_def isDigit_def str_def)
  with extractOrderId_first_match [of "(str ''CK TT1234 NOIDUNG TT9999'')" "(str ''TT1234'')"]
  show ?thesis by blast
qed

section \<open>License generation\<close>









lemma generateLicense_string:
  assumes "privateKey e = Some sign"
  shows "generateLicense e (JStr mid) (JStr t) =
    (let p = t @ str ''-'' @ toUpperCase e (take 8 mid) @ str ''-''
               @ (if t = str ''P'' then str ''FOREVER''
                  else str (formatYMD
                         (if t = str ''M'' then setMonth (now e) (getMonth (now e) + 1)
                          else if t = str ''Y'' then setFullYear (now e) (getFullYear (now e) + 1)
                          else now e)))
     in Inr (p @ str ''-'' @ sign p))"
  using assms by (simp add: generateLicense_def Let_def substring_def formatYMD_def)


lemmas evalLicense =
  generateLicense_def asciiUpperCase_def substring_def setMonth_def setFullYear_def
  makeDay.simps daysInMonth_def leapYear_def showInt_def showNat.simps digitChar_def padStart2_def
  str_def



text \<open>
  Claim C6, as amended. License generation validates neither the type nor the length of
  the machine id. With the signing key configured and a machine id that is a string, a
  type string other than M, Y and P does not make it fail: it returns the key
  type-machineHash-expiry-signature whose expiry is the current date, unchanged. Nor
  does a machine id with fewer than 8 characters make it fail, whatever the type string:
  it returns a key whose machineHash is the whole machine id, upper-cased.
\<close>

theorem generateLicense_no_validation:
  assumes "privateKey e = Some sign"
  shows "(t \<notin> {str ''M'', str ''Y'', str ''P''} \<longrightarrow>
            generateLicense e (JStr mid) (JStr t)
              = Inr (t @ str ''-'' @ toUpperCase e (take 8 mid) @ str ''-''
                       @ str (formatYMD (now e)) @ str ''-''
                       @ sign (t @ str ''-'' @ toUpperCase e (take 8 mid) @ str ''-''
                                 @ str (formatYMD (now e)))))
       \<and> (length mid < 8 \<longrightarrow>
            (\<exists>expiry. generateLicense e (JStr mid) (JStr t)
               = Inr (t @ str ''-'' @ toUpperCase e mid @ str ''-'' @ expiry @ str ''-''
                        @ sign (t @ str ''-'' @ toUpperCase e mid @ str ''-'' @ expiry))))"
proof (intro conjI impI)
  assume "t \<notin> {str ''M'', str ''Y'', str ''P''}"
  then show "generateLicense e (JStr mid) (JStr t)
              = Inr (t @ str ''-'' @ toUpperCase e (take 8 mid) @ str ''-''
                       @ str (formatYMD (now e)) @ str ''-''
                       @ sign (t @ str ''-'' @ toUpperCase e (take 8 mid) @ str ''-''
                                 @ str (formatYMD (now e))))"
    by (simp add: generateLicense_string [OF assms] Let_def)
next
  assume "length mid < 8"
  then have m: "take 8 mid = mid" by simp
  define expiry where "expiry =
    (if t = str ''P'' then str ''FOREVER''
     else str (formatYMD
            (if t = str ''M'' then setMonth (now e) (getMonth (now e) + 1)
             else if t = str ''Y'' then setFullYear (now e) (getFullYear (now e) + 1)
             else now e)))"
  have "generateLicense e (JStr mid) (JStr t)
      = Inr (t @ str ''-'' @ toUpperCase e mid @ str ''-'' @ expiry @ str ''-''
               @ sign (t @ str ''-'' @ toUpperCase e mid @ str ''-'' @ expiry))"
    unfolding generateLicense_string [OF assms] Let_def m expiry_def by simp
  then show "\<exists>expiry. generateLicense e (JStr mid) (JStr t)
               = Inr (t @ str ''-'' @ toUpperCase e mid @ str ''-'' @ expiry @ str ''-''
                        @ sign (t @ str ''-'' @ toUpperCase e mid @ str ''-'' @ expiry))"
    by (rule exI)
qed

theorem generateLicense_no_validation_witness:
  "generateLicense exampleEnv (JStr (str ''abc'')) (JStr (str ''X''))
     = Inr (str ''X'' @ str ''-'' @ toUpperCase exampleEnv (str ''abc'') @ str ''-''
              @ str (formatYMD (now exampleEnv)) @ str ''-'' @ str ''sig('' @ str ''X'' @ str ''-''
              @ toUpperCase exampleEnv (str ''abc'') @ str ''-''
              @ str (formatYMD (now exampleEnv)) @ str '')'')"
proof -
  have k: "privateKey exampleEnv = Some (\<lambda>payload. str ''sig('' @ payload @ str '')'')"
    by (simp add: exampleEnv_def)
  have x: "str ''X'' \<notin> {str ''M'', str ''Y'', str ''P''}"
    by (simp add: str_def)
  from generateLicense_no_validation [OF k, of "str ''X''" "str ''abc''"] x
  have "generateLicense exampleEnv (JStr (str ''abc'')) (JStr (str ''X''))
          = Inr (str ''X'' @ str ''-'' @ toUpperCase exampleEnv (take 8 (str ''abc'')) @ str ''-''
                   @ str (formatYMD (now exampleEnv)) @ str ''-''
                   @ (str ''sig('' @ (str ''X'' @ str ''-''
                        @ toUpperCase exampleEnv (take 8 (str ''abc'')) @ str ''-''
                        @ str (formatYMD (now exampleEnv))) @ str '')''))"
    by blast
  moreover have "take 8 (str ''abc'') = str ''abc''" by (simp add: str_def)
  ultimately show ?thesis by simp
qed

text \<open>
  Claim C6, as stated, fails for the type X and the three-character machine id abc: no
  error is raised and a key that expires on the current day is returned.
\<close>

theorem generateLicense_unknown_type_counterexample:
  "generateLicense exampleEnv (JStr (str ''abc'')) (JStr (str ''X''))
     = Inr (str ''X-ABC-20250131-sig(X-ABC-20250131)'')"
  by (simp add: exampleEnv_def evalLicense)

section \<open>The routes on an order of the file\<close>

lemma getOrder_Own: "d k = Some order \<Longrightarrow> getOrder d k = Own order"
  by (simp add: getOrder_def)

lemma webhook_completed:
  assumes "matchOrderCode text = Some k" "db s k = Some order" "status order = COMPLETED"
  shows "webhook_sepay e (JStr text) paid s = (alreadyCompletedWebhook, s)"
  using assms by (simp add: webhook_sepay_def getOrder_Own alreadyCompletedWebhook_def)

lemma webhook_insufficient:
  assumes "matchOrderCode text = Some k" "db s k = Some order" "status order = PENDING"
    "jsLess (parseFloat paid) (parseFloat (amount order))"
  shows "webhook_sepay e (JStr text) paid s = (insufficientAmount, s)"
  using assms by (simp add: webhook_sepay_def getOrder_Own insufficientAmount_def)

lemma webhook_accepted:
  assumes "matchOrderCode text = Some k" "db s k = Some order" "status order = PENDING"
    "\<not> jsLess (parseFloat paid) (parseFloat (amount order))"
  shows "webhook_sepay e (JStr text) paid s =
    (case generateLicense e (machineId order) (type order) of
       Inl err \<Rightarrow>
         ((500, [(''error'', JStr (str ''Internal Server Error''))]),
          s\<lparr>calls := calls s @ [CallGenerateLicense (machineId order) (type order)]\<rparr>)
     | Inr key \<Rightarrow>
         ((200, [(''success'', JBool True),
                 (''emailSent'', JBool (sendEmail e (email order) key k))]),
          fulfilled e k order key s))"
  using assms
  by (simp add: webhook_sepay_def getOrder_Own fulfilled_def updateOrderStatus_def Let_def
        split: sum.splits)

lemma approve_completed:
  assumes "checkAdmin e pass" "jsToString (numberToString e) v = k" "db s k = Some order"
    "status order = COMPLETED"
  shows "api_approve e pass v s = (alreadyCompletedApprove, s)"
  using assms by (simp add: api_approve_def getOrder_Own alreadyCompletedApprove_def Let_def)

lemma approve_pending:
  assumes "checkAdmin e pass" "jsToString (numberToString e) v = k" "db s k = Some order"
    "status order = PENDING"
  shows "api_approve e pass v s =
    (case generateLicense e (machineId order) (type order) of
       Inl err \<Rightarrow>
         ((500, [(''success'', JBool False), (''message'', JStr (str ''Internal Error''))]),
          s\<lparr>calls := calls s @ [CallGenerateLicense (machineId order) (type order)]\<rparr>)
     | Inr key \<Rightarrow>
         ((200, [(''success'', JBool True),
                 (''emailSent'', JBool (sendEmail e (email order) key k))]),
          fulfilled e k order key s))"
  using assms
  by (simp add: api_approve_def getOrder_Own fulfilled_def updateOrderStatus_def Let_def
        split: sum.splits)

lemma create_order_rejected:
  assumes "\<not> (truthy (machineId body) \<and> truthy (email body) \<and> truthy (type body) \<and> truthy (amount body))"
  shows "create_order e body r s = ((400, [(''error'', JStr (str ''Missing required fields''))]), s)"
  using assms by (auto simp: create_order_def)

lemma create_order_accepted:
  assumes "truthy (machineId body)" "truthy (email body)" "truthy (type body)" "truthy (amount body)"
  shows "fst (fst (create_order e body r s)) = 200"
    and "map_of (snd (fst (create_order e body r s))) ''success'' = Some (JBool True)"
    and "map_of (snd (fst (create_order e body r s))) ''orderId'' = Some (JStr (str ''TT'' @ str (showNat (1000 + r))))"
    and "snd (create_order e body r s)
           = s\<lparr>db := (db s)(str ''TT'' @ str (showNat (1000 + r)) \<mapsto> freshOrder e body)\<rparr>"
  using assms by (simp_all add: create_order_def Let_def saveOrder_def freshOrder_def)

lemma truthy_iff:
  "truthy v \<longleftrightarrow> v \<notin> {JUndefined, JNull, JBool False, JNum 0, JStr []}"
  by (cases v) auto

lemma example_match: "matchOrderCode (str ''CK TT1234'') = Some (str ''TT1234'')"
  by (simp add: matchesHere_def isDigit_def str_def)

lemma example_admin:
  "checkAdmin exampleEnv (Some (str ''admin123''))"
  "jsToString (numberToString exampleEnv) (JStr (str ''TT1234'')) = str ''TT1234''"
  by (simp_all add: checkAdmin_def exampleEnv_def)

lemmas evalExamples =
  exampleEnv_def pendingOrder_def completedOrder_def pendingState_def completedState_def
  oddBody_def exampleBody_def

section \<open>Fulfillment of a completed order\<close>

text \<open>
  Claim C1, as amended. For every order whose status is COMPLETED, every later
  fulfillment call on it leaves the order file unchanged and calls neither the license
  generator nor the mailer. The webhook answers with success true and the message
  "Order already completed"; the admin approval answers with success false and the same
  message. Neither answer carries the stored license key.
\<close>

theorem completed_order_short_circuit:
  assumes "db s k = Some order" and "status order = COMPLETED"
  shows "(matchOrderCode text = Some k \<longrightarrow>
            webhook_sepay e (JStr text) paid s = (alreadyCompletedWebhook, s))
       \<and> (checkAdmin e pass \<and> jsToString (numberToString e) v = k \<longrightarrow>
            api_approve e pass v s = (alreadyCompletedApprove, s))"
  using assms by (auto simp: webhook_completed approve_completed)

theorem completed_order_short_circuit_witness:
  "webhook_sepay exampleEnv (JStr (str ''CK TT1234'')) (JNum 200000) completedState
     = (alreadyCompletedWebhook, completedState)
   \<and> api_approve exampleEnv (Some (str ''admin123'')) (JStr (str ''TT1234'')) completedState
     = (alreadyCompletedApprove, completedState)"
proof -
  have d: "db completedState (str ''TT1234'') = Some completedOrder"
    by (simp add: completedState_def)
  have c: "status completedOrder = COMPLETED"
    by (simp add: completedOrder_def)
  have m: "matchOrderCode (str ''CK TT1234'') = Some (str ''TT1234'')"
    by (rule example_match)
  have a: "checkAdmin exampleEnv (Some (str ''admin123''))
             \<and> jsToString (numberToString exampleEnv) (JStr (str ''TT1234'')) = (str ''TT1234'')"
    by (simp add: example_admin)
  from completed_order_short_circuit [OF d c, of "(str ''CK TT1234'')" exampleEnv "JNum 200000"
         "Some (str ''admin123'')" "JStr (str ''TT1234'')"] m a
  show ?thesis by blast
qed

text \<open>
  Claim C1, as stated, fails on a completed order: the admin approval reports
  success false, and neither answer has a \<open>licenseKey\<close> field although the order has a
  stored key.
\<close>

theorem completed_order_refulfil_counterexample:
  "status completedOrder = COMPLETED
   \<and> licenseKey completedOrder = Some (str ''M-ABCDEFGH-20250215-sig(M-ABCDEFGH-20250215)'')
   \<and> db completedState (str ''TT1234'') = Some completedOrder
   \<and> map_of (snd (fst (api_approve exampleEnv (Some (str ''admin123'')) (JStr (str ''TT1234''))
                          completedState)))
        ''success'' = Some (JBool False)
   \<and> map_of (snd (fst (api_approve exampleEnv (Some (str ''admin123'')) (JStr (str ''TT1234''))
                          completedState)))
        ''licenseKey'' = None
   \<and> map_of (snd (fst (webhook_sepay exampleEnv (JStr (str ''CK TT1234'')) (JNum 200000)
                          completedState)))
        ''licenseKey'' = None"
proof -
  have d: "db completedState (str ''TT1234'') = Some completedOrder"
    by (simp add: completedState_def)
  have c: "status completedOrder = COMPLETED"
    by (simp add: completedOrder_def)
  have k: "licenseKey completedOrder = Some (str ''M-ABCDEFGH-20250215-sig(M-ABCDEFGH-20250215)'')"
    by (simp add: completedOrder_def)
  show ?thesis
    by (simp add: d c k webhook_completed [OF example_match d c]
          approve_completed [OF example_admin d c] alreadyCompletedWebhook_def
          alreadyCompletedApprove_def)
qed

section \<open>The license key of an order and its status\<close>

lemma invariant_create: "licenseKeyInvariant s \<Longrightarrow> licenseKeyInvariant (snd (create_order e body r s))"
  by (auto simp: licenseKeyInvariant_def create_order_def saveOrder_def Let_def)

lemma invariant_update:
  "licenseKeyInvariant s \<Longrightarrow>
   licenseKeyInvariant (s\<lparr>db := updateOrderStatus e k COMPLETED (Some key) (db s)\<rparr>)"
  by (auto simp: licenseKeyInvariant_def updateOrderStatus_def split: option.splits)

lemma invariant_calls: "licenseKeyInvariant (s\<lparr>calls := cs\<rparr>) = licenseKeyInvariant s"
  by (simp add: licenseKeyInvariant_def)

lemma invariant_webhook:
  "licenseKeyInvariant s \<Longrightarrow> licenseKeyInvariant (snd (webhook_sepay e content paid s))"
  by (auto simp: webhook_sepay_def Let_def invariant_update invariant_calls
        split: jsvalue.splits option.splits lookup.splits sum.splits)

lemma invariant_approve:
  "licenseKeyInvariant s \<Longrightarrow> licenseKeyInvariant (snd (api_approve e pass v s))"
  by (auto simp: api_approve_def Let_def invariant_update invariant_calls
        split: lookup.splits sum.splits)

lemma invariant_delete:
  "licenseKeyInvariant s \<Longrightarrow> licenseKeyInvariant (snd (api_orders_delete e pass k s))"
  by (auto simp: api_orders_delete_def licenseKeyInvariant_def split: lookup.splits)

lemma invariant_handle: "licenseKeyInvariant s \<Longrightarrow> licenseKeyInvariant (snd (handle e rq s))"
  by (cases rq) (simp_all add: invariant_create invariant_webhook invariant_approve invariant_delete)

lemma invariant_run: "licenseKeyInvariant s \<Longrightarrow> licenseKeyInvariant (run rs s)"
  by (induction rs arbitrary: s) (auto simp: invariant_handle)

text \<open>
  Claim C3. In every state that a sequence of requests reaches from the empty order
  file, every order has a license key if and only if its status is COMPLETED; and each
  request (order creation, webhook, admin approval, deletion) takes a state with this
  property to a state with this property.
\<close>

theorem licenseKey_iff_completed:
  "licenseKeyInvariant (run rs initialState)
   \<and> (licenseKeyInvariant s \<longrightarrow> licenseKeyInvariant (snd (handle e rq s)))"
proof
  have "licenseKeyInvariant initialState"
    by (simp add: licenseKeyInvariant_def initialState_def)
  then show "licenseKeyInvariant (run rs initialState)" by (rule invariant_run)
next
  show "licenseKeyInvariant s \<longrightarrow> licenseKeyInvariant (snd (handle e rq s))"
    by (simp add: invariant_handle)
qed

lemma exampleRun_result:
  "db (run exampleRun initialState) (str ''TT1234'')
     = Some (freshOrder exampleEnv exampleBody
               \<lparr>status := COMPLETED,
                licenseKey := Some (str ''M-ABCDEFGH-20250303-sig(M-ABCDEFGH-20250303)''),
                updatedAt := Some (isoNow exampleEnv)\<rparr>)"
proof -
  have c: "snd (create_order exampleEnv exampleBody 234 initialState)
      = initialState\<lparr>db := (db initialState)((str ''TT1234'') \<mapsto> freshOrder exampleEnv exampleBody)\<rparr>"
  proof -
    have "str ''TT'' @ str (showNat (1000 + 234)) = (str ''TT1234'')"
      by (simp add: showNat.simps digitChar_def str_def)
    moreover have "truthy (machineId exampleBody)" "truthy (email exampleBody)"
      "truthy (type exampleBody)" "truthy (amount exampleBody)"
      by (simp_all add: exampleBody_def)
    ultimately show ?thesis using create_order_accepted(4) [of exampleBody exampleEnv 234 initialState]
      by simp
  qed
  let ?s = "initialState\<lparr>db := (db initialState)((str ''TT1234'') \<mapsto> freshOrder exampleEnv exampleBody)\<rparr>"
  have m: "matchOrderCode (str ''CK TT1234'') = Some (str ''TT1234'')"
    by (rule example_match)
  have d: "db ?s (str ''TT1234'') = Some (freshOrder exampleEnv exampleBody)" by simp
  have p: "status (freshOrder exampleEnv exampleBody) = PENDING" by (simp add: freshOrder_def)
  have a: "\<not> jsLess (parseFloat (JNum 200000)) (parseFloat (amount (freshOrder exampleEnv exampleBody)))"
    by (simp add: freshOrder_def exampleBody_def)
  have g: "generateLicense exampleEnv (machineId (freshOrder exampleEnv exampleBody))
             (type (freshOrder exampleEnv exampleBody))
           = Inr (str ''M-ABCDEFGH-20250303-sig(M-ABCDEFGH-20250303)'')"
    by (simp add: freshOrder_def exampleBody_def exampleEnv_def evalLicense)
  have "snd (webhook_sepay exampleEnv (JStr (str ''CK TT1234'')) (JNum 200000) ?s)
      = fulfilled exampleEnv (str ''TT1234'') (freshOrder exampleEnv exampleBody)
          (str ''M-ABCDEFGH-20250303-sig(M-ABCDEFGH-20250303)'') ?s"
    by (simp add: webhook_accepted [OF m d p a] g)
  then show ?thesis
    by (simp add: exampleRun_def c fulfilled_def)
qed

theorem licenseKey_iff_completed_witness:
  "licenseKeyInvariant (run exampleRun initialState)
   \<and> (\<exists>order. db (run exampleRun initialState) (str ''TT1234'') = Some order
         \<and> status order = COMPLETED \<and> licenseKey order \<noteq> None)"
proof -
  from licenseKey_iff_completed [of exampleRun initialState exampleEnv "CreateOrder exampleBody 234"]
  have i: "licenseKeyInvariant (run exampleRun initialState)" by blast
  have "\<exists>order. db (run exampleRun initialState) (str ''TT1234'') = Some order \<and> status order = COMPLETED"
    by (simp add: exampleRun_result)
  with i show ?thesis unfolding licenseKeyInvariant_def by blast
qed

section \<open>Order creation\<close>

text \<open>
  Claim C4, as amended. Order creation never fails on an id collision: when the request
  passes the check of its four fields, it succeeds whether or not the generated order id
  is already in the file, and the order stored under that id, whatever its status and
  license key, is replaced by the new PENDING order. No other order changes.
\<close>

theorem create_order_overwrites:
  assumes "truthy (machineId body)" and "truthy (email body)" and "truthy (type body)"
    and "truthy (amount body)" and "db s (str ''TT'' @ str (showNat (1000 + r))) = Some old"
  shows "fst (fst (create_order e body r s)) = 200
       \<and> map_of (snd (fst (create_order e body r s))) ''success'' = Some (JBool True)
       \<and> db (snd (create_order e body r s)) (str ''TT'' @ str (showNat (1000 + r))) = Some (freshOrder e body)
       \<and> (\<forall>k. k \<noteq> str ''TT'' @ str (showNat (1000 + r)) \<longrightarrow> db (snd (create_order e body r s)) k = db s k)"
  using create_order_accepted [OF assms(1-4), of e r s] by simp

theorem create_order_overwrites_witness:
  "db completedState (str ''TT'' @ str (showNat (1000 + 234))) = Some completedOrder
   \<and> fst (fst (create_order exampleEnv oddBody 234 completedState)) = 200
   \<and> db (snd (create_order exampleEnv oddBody 234 completedState)) (str ''TT'' @ str (showNat (1000 + 234)))
       = Some (freshOrder exampleEnv oddBody)"
proof -
  have t: "truthy (machineId oddBody)" "truthy (email oddBody)" "truthy (type oddBody)"
    "truthy (amount oddBody)"
    by (simp_all add: oddBody_def)
  have d: "db completedState (str ''TT'' @ str (showNat (1000 + 234))) = Some completedOrder"
    by (simp add: completedState_def showNat.simps digitChar_def str_def)
  from create_order_overwrites [OF t d, of exampleEnv] d show ?thesis by blast
qed

text \<open>
  Claim C4, as stated, fails when the id TT1234 is drawn again while a pending order
  TT1234 is in the file: the creation succeeds and the pending order is replaced by the
  order of another buyer.
\<close>

theorem create_order_collision_counterexample:
  "db pendingState (str ''TT1234'') = Some pendingOrder
   \<and> fst (create_order exampleEnv oddBody 234 pendingState)
       = (200, [(''success'', JBool True), (''orderId'', JStr (str ''TT1234'')),
                (''message'', JStr (transferMessage (str ''-5'') (str ''TT1234'')))])
   \<and> db (snd (create_order exampleEnv oddBody 234 pendingState)) (str ''TT1234'')
       = Some \<lparr>machineId = JStr (str ''abc''), email = JStr (str ''other@example.com''), type = JStr (str ''X''),
               amount = JNum (- 5), status = PENDING, createdAt = (str ''2025-01-31T10:00:00.000Z''),
               licenseKey = None, updatedAt = None\<rparr>
   \<and> email pendingOrder = JStr (str ''buyer@example.com'')"
  by (simp add: evalExamples create_order_def saveOrder_def Let_def showNat.simps digitChar_def
        showInt_def str_def)

text \<open>
  Claim C8, as amended. CreateOrder fails, with status 400, exactly when one of
  machineId, email, type and amount is missing, null, false, the number 0 or the empty
  string. Every other request stores a new PENDING order with the four fields as they
  were sent: neither the sign of the amount nor the membership of the type in M, Y, P is
  checked.
\<close>

theorem create_order_validation:
  "(truthy v \<longleftrightarrow> v \<notin> {JUndefined, JNull, JBool False, JNum 0, JStr []})
   \<and> (\<not> (truthy (machineId body) \<and> truthy (email body) \<and> truthy (type body) \<and> truthy (amount body))
        \<longrightarrow> create_order e body r s = ((400, [(''error'', JStr (str ''Missing required fields''))]), s))
   \<and> (truthy (machineId body) \<and> truthy (email body) \<and> truthy (type body) \<and> truthy (amount body)
        \<longrightarrow> fst (fst (create_order e body r s)) = 200
          \<and> map_of (snd (fst (create_order e body r s))) ''orderId''
              = Some (JStr (str ''TT'' @ str (showNat (1000 + r))))
          \<and> snd (create_order e body r s)
              = s\<lparr>db := (db s)(str ''TT'' @ str (showNat (1000 + r)) \<mapsto> freshOrder e body)\<rparr>)"
  using truthy_iff [of v] create_order_rejected [of body e r s] create_order_accepted [of body e r s]
  by blast

theorem create_order_validation_witness:
  "create_order exampleEnv (exampleBody\<lparr>email := JStr []\<rparr>) 234 initialState
     = ((400, [(''error'', JStr (str ''Missing required fields''))]), initialState)
   \<and> snd (create_order exampleEnv exampleBody 234 initialState)
     = initialState\<lparr>db := (db initialState)(str ''TT'' @ str (showNat (1000 + 234)) \<mapsto> freshOrder exampleEnv exampleBody)\<rparr>"
proof -
  have a: "\<not> (truthy (machineId (exampleBody\<lparr>email := JStr []\<rparr>))
              \<and> truthy (email (exampleBody\<lparr>email := JStr []\<rparr>))
              \<and> truthy (type (exampleBody\<lparr>email := JStr []\<rparr>))
              \<and> truthy (amount (exampleBody\<lparr>email := JStr []\<rparr>)))"
    by (simp add: exampleBody_def)
  have b: "truthy (machineId exampleBody) \<and> truthy (email exampleBody)
             \<and> truthy (type exampleBody) \<and> truthy (amount exampleBody)"
    by (simp add: exampleBody_def)
  from create_order_validation [of JNull "exampleBody\<lparr>email := JStr []\<rparr>" exampleEnv 234 initialState] a
  have 1: "create_order exampleEnv (exampleBody\<lparr>email := JStr []\<rparr>) 234 initialState
     = ((400, [(''error'', JStr (str ''Missing required fields''))]), initialState)"
    by blast
  from create_order_validation [of JNull exampleBody exampleEnv 234 initialState] b
  have 2: "snd (create_order exampleEnv exampleBody 234 initialState)
     = initialState\<lparr>db := (db initialState)(str ''TT'' @ str (showNat (1000 + 234)) \<mapsto> freshOrder exampleEnv exampleBody)\<rparr>"
    by blast
  from 1 2 show ?thesis by blast
qed

text \<open>
  Claim C8, as stated, fails for a request with the type X and the amount -5: it is not
  rejected, and the order TT1234 is stored as pending.
\<close>

theorem create_order_unchecked_counterexample:
  "amount oddBody = JNum (- 5) \<and> type oddBody = JStr (str ''X'')
   \<and> fst (fst (create_order exampleEnv oddBody 234 initialState)) = 200
   \<and> db (snd (create_order exampleEnv oddBody 234 initialState)) (str ''TT1234'')
       = Some \<lparr>machineId = JStr (str ''abc''), email = JStr (str ''other@example.com''), type = JStr (str ''X''),
               amount = JNum (- 5), status = PENDING, createdAt = (str ''2025-01-31T10:00:00.000Z''),
               licenseKey = None, updatedAt = None\<rparr>"
  by (simp add: evalExamples initialState_def create_order_def saveOrder_def Let_def showNat.simps
        digitChar_def str_def)

section \<open>The amount check of the webhook\<close>

lemma generateLicense_call:
  "\<exists>cs. calls (snd (case generateLicense e m t of
                      Inl err \<Rightarrow> (r1, s\<lparr>calls := calls s @ [CallGenerateLicense m t]\<rparr>)
                    | Inr key \<Rightarrow> (r2 key, fulfilled e k order' key s)))
        = calls s @ CallGenerateLicense m t # cs"
  if "machineId order' = m" "type order' = t"
  using that by (cases "generateLicense e m t") (simp_all add: fulfilled_def)

lemma jsGreaterEq_iff: "a \<noteq> NaN \<Longrightarrow> b \<noteq> NaN \<Longrightarrow> jsGreaterEq a b \<longleftrightarrow> \<not> jsLess a b"
  by (cases a; cases b) (auto simp: jsGreaterEq_def)

text \<open>
  On amounts that are numbers the check of the webhook is the one that is asked for: it
  accepts, and goes on to call the license generator, exactly when paid >= required, and
  it rejects any underpayment without changing the state.
\<close>

lemma amount_check_on_numbers:
  assumes "matchOrderCode text = Some k" and "db s k = Some order" and "status order = PENDING"
    and "parseFloat paid \<noteq> NaN" and "parseFloat (amount order) \<noteq> NaN"
  shows "(\<not> jsGreaterEq (parseFloat paid) (parseFloat (amount order)) \<longrightarrow>
            webhook_sepay e (JStr text) paid s = (insufficientAmount, s))
       \<and> (jsGreaterEq (parseFloat paid) (parseFloat (amount order)) \<longrightarrow>
            fst (webhook_sepay e (JStr text) paid s) \<noteq> insufficientAmount
            \<and> (\<exists>cs. calls (snd (webhook_sepay e (JStr text) paid s))
                       = calls s @ CallGenerateLicense (machineId order) (type order) # cs))"
proof (intro conjI impI)
  assume "\<not> jsGreaterEq (parseFloat paid) (parseFloat (amount order))"
  with assms(4,5) have "jsLess (parseFloat paid) (parseFloat (amount order))"
    by (simp add: jsGreaterEq_iff)
  then show "webhook_sepay e (JStr text) paid s = (insufficientAmount, s)"
    by (rule webhook_insufficient [OF assms(1-3)])
next
  assume "jsGreaterEq (parseFloat paid) (parseFloat (amount order))"
  with assms(4,5) have n: "\<not> jsLess (parseFloat paid) (parseFloat (amount order))"
    by (simp add: jsGreaterEq_iff)
  note w = webhook_accepted [OF assms(1-3) n, of e]
  show "fst (webhook_sepay e (JStr text) paid s) \<noteq> insufficientAmount"
    unfolding w by (simp add: insufficientAmount_def split: sum.splits)
  show "\<exists>cs. calls (snd (webhook_sepay e (JStr text) paid s))
               = calls s @ CallGenerateLicense (machineId order) (type order) # cs"
    unfolding w by (rule generateLicense_call) simp_all
qed

text \<open>
  Claim C5 asks that the amount check accept exactly when paid >= required and reject
  everything else without a change of state. The webhook does not do so for a call that
  carries no amount: the missing amount is no number and so is not at least the required
  200000, and yet the check lets it pass, the license is generated and the pending order
  TT1234 is completed.
\<close>

theorem webhook_accepts_missing_amount:
  "db pendingState (str ''TT1234'') = Some pendingOrder
   \<and> status pendingOrder = PENDING
   \<and> amount pendingOrder = JNum 200000
   \<and> \<not> jsGreaterEq (parseFloat JUndefined) (parseFloat (amount pendingOrder))
   \<and> fst (webhook_sepay exampleEnv (JStr (str ''CK TT1234'')) JUndefined pendingState)
       = (200, [(''success'', JBool True), (''emailSent'', JBool False)])
   \<and> db (snd (webhook_sepay exampleEnv (JStr (str ''CK TT1234'')) JUndefined pendingState))
         (str ''TT1234'')
       = Some (pendingOrder\<lparr>status := COMPLETED,
                 licenseKey := Some (str ''M-ABCDEFGH-20250303-sig(M-ABCDEFGH-20250303)''),
                 updatedAt := Some (str ''2025-01-31T10:00:00.000Z'')\<rparr>)"
proof -
  have d: "db pendingState (str ''TT1234'') = Some pendingOrder" by (simp add: pendingState_def)
  have st: "status pendingOrder = PENDING" by (simp add: pendingOrder_def)
  have n: "\<not> jsLess (parseFloat JUndefined) (parseFloat (amount pendingOrder))" by simp
  have g: "generateLicense exampleEnv (machineId pendingOrder) (type pendingOrder)
           = Inr (str ''M-ABCDEFGH-20250303-sig(M-ABCDEFGH-20250303)'')"
    by (simp add: pendingOrder_def exampleEnv_def evalLicense)
  have m: "\<not> sendEmail exampleEnv (email pendingOrder)
              (str ''M-ABCDEFGH-20250303-sig(M-ABCDEFGH-20250303)'') (str ''TT1234'')"
    by (simp add: sendEmail_def exampleEnv_def)
  have w: "webhook_sepay exampleEnv (JStr (str ''CK TT1234'')) JUndefined pendingState
      = ((200, [(''success'', JBool True), (''emailSent'', JBool False)]),
         fulfilled exampleEnv (str ''TT1234'') pendingOrder
           (str ''M-ABCDEFGH-20250303-sig(M-ABCDEFGH-20250303)'') pendingState)"
    by (simp add: webhook_accepted [OF example_match d st n] g m)
  show ?thesis
    unfolding w by (simp add: d st pendingOrder_def fulfilled_def exampleEnv_def jsGreaterEq_def)
qed

text \<open>
  Claim C10. When the paid amount of a webhook call does not parse as a number, the
  insufficiency check does not reject it: for a pending order, the handler does exactly
  what it does when the required amount itself is paid. It does not answer
  "Insufficient amount", it calls the license generator, and when the generator returns
  a key the order is completed with it.
\<close>

theorem nan_amount_not_rejected:
  assumes "matchOrderCode text = Some k" and "db s k = Some order" and "status order = PENDING"
    and "parseFloat paid = NaN"
  shows "webhook_sepay e (JStr text) paid s = webhook_sepay e (JStr text) (amount order) s
       \<and> fst (webhook_sepay e (JStr text) paid s) \<noteq> insufficientAmount
       \<and> (\<exists>cs. calls (snd (webhook_sepay e (JStr text) paid s))
                  = calls s @ CallGenerateLicense (machineId order) (type order) # cs)
       \<and> (generateLicense e (machineId order) (type order) = Inr key \<longrightarrow>
            webhook_sepay e (JStr text) paid s
              = ((200, [(''success'', JBool True),
                        (''emailSent'', JBool (sendEmail e (email order) key k))]),
                 fulfilled e k order key s))"
proof -
  from assms(4) have n: "\<not> jsLess (parseFloat paid) (parseFloat (amount order))" by simp
  have x: "\<not> jsLess (parseFloat (amount order)) (parseFloat (amount order))"
    by (cases "parseFloat (amount order)") simp_all
  note w = webhook_accepted [OF assms(1-3) n, of e]
  note w' = webhook_accepted [OF assms(1-3) x, of e]
  have 1: "webhook_sepay e (JStr text) paid s = webhook_sepay e (JStr text) (amount order) s"
    by (simp only: w w')
  have 2: "fst (webhook_sepay e (JStr text) paid s) \<noteq> insufficientAmount"
    unfolding w by (simp add: insufficientAmount_def split: sum.splits)
  have 3: "\<exists>cs. calls (snd (webhook_sepay e (JStr text) paid s))
                  = calls s @ CallGenerateLicense (machineId order) (type order) # cs"
    unfolding w by (rule generateLicense_call) simp_all
  have 4: "generateLicense e (machineId order) (type order) = Inr key \<longrightarrow>
            webhook_sepay e (JStr text) paid s
              = ((200, [(''success'', JBool True),
                        (''emailSent'', JBool (sendEmail e (email order) key k))]),
                 fulfilled e k order key s)"
    unfolding w by simp
  from 1 2 3 4 show ?thesis by blast
qed

theorem nan_amount_not_rejected_witness:
  "parseFloat (JStr (str ''abc'')) = NaN
   \<and> webhook_sepay exampleEnv (JStr (str ''CK TT1234'')) (JStr (str ''abc'')) pendingState
     = ((200, [(''success'', JBool True), (''emailSent'', JBool False)]),
        fulfilled exampleEnv (str ''TT1234'') pendingOrder
          (str ''M-ABCDEFGH-20250303-sig(M-ABCDEFGH-20250303)'') pendingState)"
proof -
  have d: "db pendingState (str ''TT1234'') = Some pendingOrder" by (simp add: pendingState_def)
  have st: "status pendingOrder = PENDING" by (simp add: pendingOrder_def)
  have n: "parseFloat (JStr (str ''abc'')) = NaN" by (simp add: evalParse)
  have g: "generateLicense exampleEnv (machineId pendingOrder) (type pendingOrder)
           = Inr (str ''M-ABCDEFGH-20250303-sig(M-ABCDEFGH-20250303)'')"
    by (simp add: pendingOrder_def exampleEnv_def evalLicense)
  have m: "\<not> sendEmail exampleEnv (email pendingOrder)
              (str ''M-ABCDEFGH-20250303-sig(M-ABCDEFGH-20250303)'') (str ''TT1234'')"
    by (simp add: sendEmail_def exampleEnv_def)
  from nan_amount_not_rejected [OF example_match d st n, of exampleEnv
         "(str ''M-ABCDEFGH-20250303-sig(M-ABCDEFGH-20250303)'')"] g
  have "webhook_sepay exampleEnv (JStr (str ''CK TT1234'')) (JStr (str ''abc'')) pendingState
     = ((200, [(''success'', JBool True),
               (''emailSent'', JBool (sendEmail exampleEnv (email pendingOrder)
                  (str ''M-ABCDEFGH-20250303-sig(M-ABCDEFGH-20250303)'') (str ''TT1234'')))]),
        fulfilled exampleEnv (str ''TT1234'') pendingOrder
          (str ''M-ABCDEFGH-20250303-sig(M-ABCDEFGH-20250303)'') pendingState)"
    by blast
  with m n show ?thesis by simp
qed

section \<open>A failing mailer\<close>

text \<open>
  Claim C9. When a fulfillment has written the COMPLETED status and the license key to
  the order file and the mailer then fails, the written state stays as it is and the
  caller is told of a partial success: success true and emailSent false. The mailer is
  called only after the write. This holds for the webhook and for the admin approval.
\<close>

theorem notifier_failure_keeps_commit:
  assumes "db s k = Some order" and "status order = PENDING"
    and "generateLicense e (machineId order) (type order) = Inr key"
    and "\<not> sendEmail e (email order) key k"
  shows "(matchOrderCode text = Some k \<and> \<not> jsLess (parseFloat paid) (parseFloat (amount order)) \<longrightarrow>
            webhook_sepay e (JStr text) paid s
              = ((200, [(''success'', JBool True), (''emailSent'', JBool False)]),
                 s\<lparr>db := (db s)(k \<mapsto> order\<lparr>status := COMPLETED, licenseKey := Some key,
                                             updatedAt := Some (isoNow e)\<rparr>),
                   calls := calls s
                     @ [CallGenerateLicense (machineId order) (type order),
                        CallUpdateOrderStatus k COMPLETED,
                        CallSendEmail (email order) key k]\<rparr>))
       \<and> (checkAdmin e pass \<and> jsToString (numberToString e) v = k \<longrightarrow>
            api_approve e pass v s
              = ((200, [(''success'', JBool True), (''emailSent'', JBool False)]),
                 s\<lparr>db := (db s)(k \<mapsto> order\<lparr>status := COMPLETED, licenseKey := Some key,
                                             updatedAt := Some (isoNow e)\<rparr>),
                   calls := calls s
                     @ [CallGenerateLicense (machineId order) (type order),
                        CallUpdateOrderStatus k COMPLETED,
                        CallSendEmail (email order) key k]\<rparr>))"
proof (intro conjI impI)
  assume "matchOrderCode text = Some k \<and> \<not> jsLess (parseFloat paid) (parseFloat (amount order))"
  then have m: "matchOrderCode text = Some k"
    and n: "\<not> jsLess (parseFloat paid) (parseFloat (amount order))" by simp_all
  show "webhook_sepay e (JStr text) paid s
              = ((200, [(''success'', JBool True), (''emailSent'', JBool False)]),
                 s\<lparr>db := (db s)(k \<mapsto> order\<lparr>status := COMPLETED, licenseKey := Some key,
                                             updatedAt := Some (isoNow e)\<rparr>),
                   calls := calls s
                     @ [CallGenerateLicense (machineId order) (type order),
                        CallUpdateOrderStatus k COMPLETED,
                        CallSendEmail (email order) key k]\<rparr>)"
    unfolding webhook_accepted [OF m assms(1,2) n] using assms(3,4)
    by (simp add: fulfilled_def)
next
  assume "checkAdmin e pass \<and> jsToString (numberToString e) v = k"
  then have a: "checkAdmin e pass" and j: "jsToString (numberToString e) v = k" by simp_all
  show "api_approve e pass v s
              = ((200, [(''success'', JBool True), (''emailSent'', JBool False)]),
                 s\<lparr>db := (db s)(k \<mapsto> order\<lparr>status := COMPLETED, licenseKey := Some key,
                                             updatedAt := Some (isoNow e)\<rparr>),
                   calls := calls s
                     @ [CallGenerateLicense (machineId order) (type order),
                        CallUpdateOrderStatus k COMPLETED,
                        CallSendEmail (email order) key k]\<rparr>)"
    unfolding approve_pending [OF a j assms(1,2)] using assms(3,4)
    by (simp add: fulfilled_def)
qed

theorem notifier_failure_keeps_commit_witness:
  "api_approve exampleEnv (Some (str ''admin123'')) (JStr (str ''TT1234'')) pendingState
     = ((200, [(''success'', JBool True), (''emailSent'', JBool False)]),
        pendingState
          \<lparr>db := (db pendingState)((str ''TT1234'') \<mapsto>
                    pendingOrder\<lparr>status := COMPLETED,
                                 licenseKey := Some (str ''M-ABCDEFGH-20250303-sig(M-ABCDEFGH-20250303)''),
                                 updatedAt := Some (isoNow exampleEnv)\<rparr>),
            calls := calls pendingState
              @ [CallGenerateLicense (machineId pendingOrder) (type pendingOrder),
                 CallUpdateOrderStatus (str ''TT1234'') COMPLETED,
                 CallSendEmail (email pendingOrder)
                   (str ''M-ABCDEFGH-20250303-sig(M-ABCDEFGH-20250303)'') (str ''TT1234'')]\<rparr>)"
proof -
  have d: "db pendingState (str ''TT1234'') = Some pendingOrder" by (simp add: pendingState_def)
  have st: "status pendingOrder = PENDING" by (simp add: pendingOrder_def)
  have g: "generateLicense exampleEnv (machineId pendingOrder) (type pendingOrder)
           = Inr (str ''M-ABCDEFGH-20250303-sig(M-ABCDEFGH-20250303)'')"
    by (simp add: pendingOrder_def exampleEnv_def evalLicense)
  have m: "\<not> sendEmail exampleEnv (email pendingOrder)
              (str ''M-ABCDEFGH-20250303-sig(M-ABCDEFGH-20250303)'') (str ''TT1234'')"
    by (simp add: sendEmail_def exampleEnv_def)
  have a: "checkAdmin exampleEnv (Some (str ''admin123''))
             \<and> jsToString (numberToString exampleEnv) (JStr (str ''TT1234'')) = (str ''TT1234'')"
    by (simp add: checkAdmin_def exampleEnv_def)
  from notifier_failure_keeps_commit [OF d st g m, of "(str ''CK TT1234'')" "JNum 200000"
         "Some (str ''admin123'')" "JStr (str ''TT1234'')"] a
  show ?thesis by blast
qed

end
